theory Spec2Isabelle
  imports Main "HOL-Library.Sublist"
begin

section \<open>Python values\<close>

text \<open>
  The handlers of \<^verbatim>\<open>backend/app/api/routes.py\<close> build and return Python dictionaries and
  pass the rows of the database client through untouched. A Python value is modelled by
  the datatype below; a dictionary is an association list from string keys to values.
  The handlers never compute with a floating point number, so the type of floats is the
  parameter \<open>'f\<close>.
\<close>

datatype 'f pyval =
    PyNone
  | PyBool bool
  | PyInt int
  | PyFloat 'f
  | PyStr string
  | PyList "'f pyval list"
  | PyDict "(string \<times> 'f pyval) list"

type_synonym 'f dict = "(string \<times> 'f pyval) list"

text \<open>Reading a field of a dictionary: \<open>None\<close> where Python raises.\<close>

fun getitem :: "'f pyval \<Rightarrow> string \<Rightarrow> 'f pyval option" where
  "getitem (PyDict kvs) k = map_of kvs k"
| "getitem _ k = None"

section \<open>Exceptions\<close>

text \<open>
  An instance of Python's \<^verbatim>\<open>Exception\<close>, which is what \<^verbatim>\<open>except Exception as e\<close>
  matches: the name of its class and the string \<^verbatim>\<open>str(e)\<close>. The handlers use the
  string only.
\<close>

datatype exception = Exception (cls: string) (str: string)

text \<open>
  Python's \<^verbatim>\<open>len\<close>: the number of elements of a list, of keys of a dictionary, of
  characters of a string; on a value without a length it raises \<^verbatim>\<open>TypeError\<close>.
\<close>

fun len :: "'f pyval \<Rightarrow> exception + int" where
  "len (PyStr s) = Inr (int (length s))"
| "len (PyList xs) = Inr (int (length xs))"
| "len (PyDict kvs) = Inr (int (length (remdups (map fst kvs))))"
| "len PyNone = Inl (Exception ''TypeError'' ''object of type 'NoneType' has no len()'')"
| "len (PyBool b) = Inl (Exception ''TypeError'' ''object of type 'bool' has no len()'')"
| "len (PyInt i) = Inl (Exception ''TypeError'' ''object of type 'int' has no len()'')"
| "len (PyFloat x) = Inl (Exception ''TypeError'' ''object of type 'float' has no len()'')"

text \<open>\<^verbatim>\<open>HTTPException(status_code=..., detail=...)\<close> of the web framework.\<close>

datatype http_exception = HTTPException (status_code: int) (detail: string)

section \<open>The database client\<close>

text \<open>
  \<^verbatim>\<open>supabase.table(t).select(cols).execute()\<close> and
  \<^verbatim>\<open>supabase.table(t).insert(record).execute()\<close>: the two requests the handlers
  build. The client object \<^verbatim>\<open>supabase\<close> is imported from
  \<^verbatim>\<open>app.services.database\<close>; the handlers take it as a parameter here. A client
  executes a request on the state \<open>'s\<close> of the external database: it returns a response
  object with a \<^verbatim>\<open>.data\<close> field or raises, and leaves the database in a new state.
  The field usually holds a list of rows, each a dictionary, but nothing in the handlers
  makes it so: it is any Python value, \<^verbatim>\<open>None\<close> included.
\<close>

datatype 'f query = Select string string | Insert string "'f dict"

datatype 'f api_response = APIResponse (data: "'f pyval")

type_synonym ('s, 'f) client = "'f query \<Rightarrow> 's \<Rightarrow> (exception + 'f api_response) \<times> 's"

text \<open>
  What a request can see and change: the external database, whatever other state the
  application process holds, and (as a trace, for the theorems) the requests made to the
  database client so far.
\<close>

record ('s, 'a, 'f) world =
  db :: 's
  app_state :: 'a
  calls :: "'f query list"

definition execute ::
  "('s, 'f) client \<Rightarrow> 'f query \<Rightarrow> ('s, 'a, 'f) world
     \<Rightarrow> (exception + 'f api_response) \<times> ('s, 'a, 'f) world" where
  "execute supabase q w =
     (case supabase q (db w) of
        (outcome, s') \<Rightarrow> (outcome, w\<lparr>db := s', calls := calls w @ [q]\<rparr>))"

section \<open>The route handlers\<close>

text \<open>
  A handler returns a response body (\<open>Inr\<close>) or raises an \<^verbatim>\<open>HTTPException\<close>
  (\<open>Inl\<close>), and returns the world it leaves.
\<close>

type_synonym ('s, 'a, 'f) handler =
  "('s, 'a, 'f) world \<Rightarrow> (http_exception + 'f pyval) \<times> ('s, 'a, 'f) world"

text \<open>
  \<^verbatim>\<open>
  @router.get("/")
  def root():
      return {"message": "Backend connected successfully!"}
  \<close>
\<close>

definition root :: "('s, 'a, 'f) handler" where
  "root w = (Inr (PyDict [(''message'', PyStr ''Backend connected successfully!'')]), w)"

text \<open>
  \<^verbatim>\<open>
  @router.get("/test")
  def get_test_records():
      try:
          data = supabase.table("test_records").select("*").execute()
          return {"success": True, "data": data.data, "count": len(data.data)}
      except Exception as e:
          raise HTTPException(status_code=500, detail=f"Database error: {str(e)}")
  \<close>
\<close>

definition get_test_records :: "('s, 'f) client \<Rightarrow> ('s, 'a, 'f) handler" where
  "get_test_records supabase w =
     (case execute supabase (Select ''test_records'' ''*'') w of
        (Inr response, w') \<Rightarrow>
          (case len (data response) of
             Inr n \<Rightarrow>
               (Inr (PyDict [(''success'', PyBool True),
                             (''data'', data response),
                             (''count'', PyInt n)]), w')
           | Inl e \<Rightarrow>
               (Inl (HTTPException 500 (''Database error: '' @ str e)), w'))
      | (Inl e, w') \<Rightarrow>
          (Inl (HTTPException 500 (''Database error: '' @ str e)), w'))"

text \<open>
  Both \<^verbatim>\<open>data.data\<close> and \<^verbatim>\<open>len(data.data)\<close> are evaluated inside the
  \<^verbatim>\<open>try\<close>, so a \<^verbatim>\<open>TypeError\<close> of \<^verbatim>\<open>len\<close> is caught and translated like an
  exception of the client.
\<close>

text \<open>
  \<^verbatim>\<open>
  @router.post("/test")
  def add_test_record(record: dict):
      try:
          response = supabase.table("test_records").insert(record).execute()
          return {"success": True, "data": response.data}
      except Exception as e:
          raise HTTPException(status_code=500, detail=f"Database error: {str(e)}")
  \<close>
\<close>

definition add_test_record :: "('s, 'f) client \<Rightarrow> 'f dict \<Rightarrow> ('s, 'a, 'f) handler" where
  "add_test_record supabase record w =
     (case execute supabase (Insert ''test_records'' record) w of
        (Inr response, w') \<Rightarrow>
          (Inr (PyDict [(''success'', PyBool True),
                        (''data'', data response)]), w')
      | (Inl e, w') \<Rightarrow>
          (Inl (HTTPException 500 (''Database error: '' @ str e)), w'))"

text \<open>
  The three routes of \<^verbatim>\<open>router\<close>, which \<^verbatim>\<open>main.py\<close> mounts without a prefix. A
  request is one that reaches a handler: the framework has already parsed the body of
  \<^verbatim>\<open>POST /test\<close> into a dictionary.
\<close>

datatype 'f request = GET_root | GET_test | POST_test "'f dict"

primrec router :: "('s, 'f) client \<Rightarrow> 'f request \<Rightarrow> ('s, 'a, 'f) handler" where
  "router supabase GET_root = root"
| "router supabase GET_test = get_test_records supabase"
| "router supabase (POST_test record) = add_test_record supabase record"

section \<open>The application and its cross-origin middleware\<close>







subsection \<open>The middleware that is installed\<close>










fun split :: "char \<Rightarrow> string \<Rightarrow> string list" where
  "split c [] = [[]]"
| "split c (x # xs) =
     (if x = c then [] # split c xs
      else (case split c xs of y # ys \<Rightarrow> (x # y) # ys | [] \<Rightarrow> [[x]]))"





section \<open>A database for the test records\<close>

text \<open>
  Modelled from the spec: the external database behind the client \<^verbatim>\<open>supabase\<close>
  (\<^verbatim>\<open>app/services/database.py\<close> and the service it connects to are not among the
  source files). The spec describes a collection of records, "an arbitrary key-value
  mapping with no enforced schema", with two operations: read all rows, and insert a
  record verbatim, which returns the inserted row. A table is the list of its rows in
  insertion order.
\<close>

record 'f database =
  tables :: "string \<Rightarrow> 'f dict list"
  faults :: "exception option list"

text \<open>
  Modelled from the spec: the effect of a request that the database accepts.
\<close>

definition run_query :: "'f query \<Rightarrow> 'f database \<Rightarrow> 'f api_response \<times> 'f database" where
  "run_query q s =
     (case q of
        Select t cols \<Rightarrow> (APIResponse (PyList (map PyDict (tables s t))), s)
      | Insert t record \<Rightarrow>
          (APIResponse (PyList [PyDict record]),
           s\<lparr>tables := (tables s)(t := tables s t @ [record])\<rparr>))"

text \<open>
  Modelled from the spec: the client. Any call may fail ("database operation failure");
  which calls fail is not the application's choice, so the database state carries a
  schedule: the head of \<open>faults\<close> says whether the next call raises (and what), and each
  call consumes it. With the schedule exhausted every call succeeds. A call that raises
  leaves the tables as they are.
\<close>

definition supabase_model :: "('f database, 'f) client" where
  "supabase_model q s =
     (case faults s of
        [] \<Rightarrow> (case run_query q s of (response, s') \<Rightarrow> (Inr response, s'))
      | None # fs \<Rightarrow>
          (case run_query q (s\<lparr>faults := fs\<rparr>) of (response, s') \<Rightarrow> (Inr response, s'))
      | Some e # fs \<Rightarrow> (Inl e, s\<lparr>faults := fs\<rparr>))"

subsection \<open>Concrete inputs\<close>

text \<open>
  A world whose table \<^verbatim>\<open>test_records\<close> holds one row, with the given fault schedule,
  and a record to insert.
\<close>

definition ada :: "unit dict" where
  "ada = [(''name'', PyStr ''Ada''), (''age'', PyInt 36)]"

definition grace :: "unit dict" where
  "grace = [(''name'', PyStr ''Grace'')]"

definition world_with :: "exception option list \<Rightarrow> (unit database, nat, unit) world" where
  "world_with fs =
     \<lparr>db = \<lparr>tables = (\<lambda>t. if t = ''test_records'' then [ada] else []), faults = fs\<rparr>,
      app_state = 7,
      calls = []\<rparr>"

definition timeout :: exception where
  "timeout = Exception ''ConnectTimeout'' ''timed out''"

text \<open>
  A client whose calls return a response with \<^verbatim>\<open>.data = None\<close> and never raise, on
  a database without state.
\<close>

definition null_client :: "(unit, unit) client" where
  "null_client q s = (Inr (APIResponse PyNone), s)"

definition bare_world :: "(unit, nat, unit) world" where
  "bare_world = \<lparr>db = (), app_state = 0, calls = []\<rparr>"

section \<open>What the handlers return and leave behind\<close>

lemma execute_fst: "fst (execute supabase q w) = fst (supabase q (db w))"
  by (simp add: execute_def split: prod.splits)

lemma execute_snd:
  "snd (execute supabase q w) = w\<lparr>db := snd (supabase q (db w)), calls := calls w @ [q]\<rparr>"
  by (simp add: execute_def split: prod.splits)

lemma get_test_records_fst:
  "fst (get_test_records supabase w) =
     (case fst (supabase (Select ''test_records'' ''*'') (db w)) of
        Inl e \<Rightarrow> Inl (HTTPException 500 (''Database error: '' @ str e))
      | Inr response \<Rightarrow>
          (case len (data response) of
             Inl e \<Rightarrow> Inl (HTTPException 500 (''Database error: '' @ str e))
           | Inr n \<Rightarrow>
               Inr (PyDict [(''success'', PyBool True),
                            (''data'', data response),
                            (''count'', PyInt n)])))"
  by (simp add: get_test_records_def execute_def split: prod.splits sum.splits)

lemma get_test_records_snd:
  "snd (get_test_records supabase w) =
     w\<lparr>db := snd (supabase (Select ''test_records'' ''*'') (db w)),
       calls := calls w @ [Select ''test_records'' ''*'']\<rparr>"
  by (simp add: get_test_records_def execute_def split: prod.splits sum.splits)

lemma add_test_record_fst:
  "fst (add_test_record supabase record w) =
     (case fst (supabase (Insert ''test_records'' record) (db w)) of
        Inl e \<Rightarrow> Inl (HTTPException 500 (''Database error: '' @ str e))
      | Inr response \<Rightarrow>
          Inr (PyDict [(''success'', PyBool True), (''data'', data response)]))"
  by (simp add: add_test_record_def execute_def split: prod.splits sum.splits)

lemma add_test_record_snd:
  "snd (add_test_record supabase record w) =
     w\<lparr>db := snd (supabase (Insert ''test_records'' record) (db w)),
       calls := calls w @ [Insert ''test_records'' record]\<rparr>"
  by (simp add: add_test_record_def execute_def split: prod.splits sum.splits)

section \<open>Reading the test records\<close>

text \<open>
  C1. Whenever the database select returns a row list, \<^verbatim>\<open>GET /test\<close> returns the
  dictionary \<^verbatim>\<open>{"success": True, "data": rows, "count": n}\<close>, where \<open>rows\<close> is the row
  list the client returned and \<open>n\<close> its length; and in every successful response of
  \<^verbatim>\<open>GET /test\<close> the field \<^verbatim>\<open>count\<close> is the length of the field \<^verbatim>\<open>data\<close>.
\<close>

theorem get_test_records_response:
  "(\<forall>rows. fst (supabase (Select ''test_records'' ''*'') (db w))
             = Inr (APIResponse (PyList rows)) \<longrightarrow>
      fst (get_test_records supabase w) =
        Inr (PyDict [(''success'', PyBool True),
                     (''data'', PyList rows),
                     (''count'', PyInt (int (length rows)))])) \<and>
   (\<forall>body. fst (get_test_records supabase w) = Inr body \<longrightarrow>
      (\<exists>d n. getitem body ''data'' = Some d \<and> len d = Inr n \<and>
             getitem body ''count'' = Some (PyInt n)))"
  by (auto simp: get_test_records_fst split: sum.splits)

theorem get_test_records_response_witness:
  "fst (supabase_model (Select ''test_records'' ''*'') (db (world_with [])))
     = Inr (APIResponse (PyList [PyDict ada])) \<and>
   fst (get_test_records supabase_model (world_with [])) =
     Inr (PyDict [(''success'', PyBool True),
                  (''data'', PyList [PyDict ada]),
                  (''count'', PyInt 1)]) \<and>
   (\<exists>d n. getitem (PyDict [(''success'', PyBool True),
                  (''data'', PyList [PyDict ada]),
                  (''count'', PyInt 1)]) ''data'' = Some d \<and> len d = Inr n \<and>
          getitem (PyDict [(''success'', PyBool True),
                  (''data'', PyList [PyDict ada]),
                  (''count'', PyInt 1)]) ''count'' = Some (PyInt n))"
  using get_test_records_response [of supabase_model "world_with []"]
  by (simp add: supabase_model_def run_query_def world_with_def)

section \<open>Database failures\<close>

lemma database_error_prefix_sublist: "sublist ''Database error:'' (''Database error: '' @ s)"
proof -
  have "''Database error: '' @ s = ''Database error:'' @ ('' '' @ s)" by simp
  then show ?thesis by (simp only: sublist_append_rightI)
qed

text \<open>
  C2, as the code has it. Whenever the database client raises during the select of
  \<^verbatim>\<open>GET /test\<close> or the insert of \<^verbatim>\<open>POST /test\<close>, the handler raises an
  \<^verbatim>\<open>HTTPException\<close> with status code 500 whose detail contains
  \<^verbatim>\<open>"Database error:"\<close> and the string of the exception raised. \<^verbatim>\<open>POST /test\<close> raises
  if and only if the insert raises. \<^verbatim>\<open>GET /test\<close> raises if and only if the select
  raises or the data of the response it returns has no \<^verbatim>\<open>len()\<close>; in the latter case
  too the error has status code 500 and the detail \<^verbatim>\<open>"Database error: "\<close> followed by
  the string of the \<^verbatim>\<open>TypeError\<close>.
\<close>

theorem database_failure_raises_http_500:
  "(\<forall>e. fst (supabase (Select ''test_records'' ''*'') (db w)) = Inl e \<longrightarrow>
      (\<exists>h. fst (get_test_records supabase w) = Inl h \<and> status_code h = 500 \<and>
           sublist ''Database error:'' (detail h) \<and> sublist (str e) (detail h))) \<and>
   (\<forall>e. fst (supabase (Insert ''test_records'' record) (db w)) = Inl e \<longrightarrow>
      (\<exists>h. fst (add_test_record supabase record w) = Inl h \<and> status_code h = 500 \<and>
           sublist ''Database error:'' (detail h) \<and> sublist (str e) (detail h))) \<and>
   ((\<exists>h. fst (add_test_record supabase record w) = Inl h) \<longleftrightarrow>
      (\<exists>e. fst (supabase (Insert ''test_records'' record) (db w)) = Inl e)) \<and>
   ((\<exists>h. fst (get_test_records supabase w) = Inl h) \<longleftrightarrow>
      (\<exists>e. fst (supabase (Select ''test_records'' ''*'') (db w)) = Inl e) \<or>
      (\<exists>response e. fst (supabase (Select ''test_records'' ''*'') (db w)) = Inr response \<and>
                    len (data response) = Inl e)) \<and>
   (\<forall>response e. fst (supabase (Select ''test_records'' ''*'') (db w)) = Inr response \<and>
                 len (data response) = Inl e \<longrightarrow>
      fst (get_test_records supabase w) =
        Inl (HTTPException 500 (''Database error: '' @ str e)))"
proof -
  have pre: "\<And>s. sublist ''Database error:'' (''Database error: '' @ s)"
    by (rule database_error_prefix_sublist)
  have suf: "\<And>s. sublist s (''Database error: '' @ s)"
    by (rule sublist_append_leftI)
  show ?thesis
    unfolding get_test_records_fst add_test_record_fst
    using pre suf by (auto simp del: append.simps split: sum.splits)
qed

theorem database_failure_raises_http_500_witness:
  "fst (supabase_model (Select ''test_records'' ''*'') (db (world_with [Some timeout])))
     = Inl timeout \<and>
   (\<exists>h. fst (get_test_records supabase_model (world_with [Some timeout])) = Inl h \<and>
        status_code h = 500 \<and> sublist ''Database error:'' (detail h) \<and>
        sublist (str timeout) (detail h)) \<and>
   fst (supabase_model (Insert ''test_records'' grace) (db (world_with [Some timeout])))
     = Inl timeout \<and>
   (\<exists>h. fst (add_test_record supabase_model grace (world_with [Some timeout])) = Inl h \<and>
        status_code h = 500 \<and> sublist ''Database error:'' (detail h) \<and>
        sublist (str timeout) (detail h)) \<and>
   fst (null_client (Select ''test_records'' ''*'') (db bare_world))
     = Inr (APIResponse PyNone) \<and>
   len (data (APIResponse (PyNone :: unit pyval)))
     = Inl (Exception ''TypeError'' ''object of type 'NoneType' has no len()'') \<and>
   fst (get_test_records null_client bare_world) =
     Inl (HTTPException 500 ''Database error: object of type 'NoneType' has no len()'')"
proof -
  have sel: "fst (supabase_model (Select ''test_records'' ''*'') (db (world_with [Some timeout])))
     = Inl timeout"
    by (simp add: supabase_model_def world_with_def)
  have ins: "fst (supabase_model (Insert ''test_records'' grace) (db (world_with [Some timeout])))
     = Inl timeout"
    by (simp add: supabase_model_def world_with_def)
  have nul: "fst (null_client (Select ''test_records'' ''*'') (db bare_world))
     = Inr (APIResponse PyNone)"
    by (simp add: null_client_def)
  have ln: "len (data (APIResponse (PyNone :: unit pyval)))
     = Inl (Exception ''TypeError'' ''object of type 'NoneType' has no len()'')"
    by simp
  have raised: "fst (get_test_records null_client bare_world) =
     Inl (HTTPException 500 ''Database error: object of type 'NoneType' has no len()'')"
    using database_failure_raises_http_500 [of null_client bare_world] nul ln by simp
  from database_failure_raises_http_500
         [of supabase_model "world_with [Some timeout]" grace] sel ins nul ln raised
  show ?thesis by blast
qed

text \<open>
  The claim as stated also says that the handler raises only if the database call
  raises. For \<^verbatim>\<open>GET /test\<close> that fails: a select that returns a response whose data is
  \<^verbatim>\<open>None\<close> raises nothing, and the handler raises the HTTP error all the same.
\<close>

theorem get_raises_without_database_failure:
  "fst (null_client (Select ''test_records'' ''*'') (db bare_world))
     = Inr (APIResponse PyNone) \<and>
   fst (get_test_records null_client bare_world) =
     Inl (HTTPException 500 ''Database error: object of type 'NoneType' has no len()'') \<and>
   \<not> ((\<exists>h. fst (get_test_records null_client bare_world) = Inl h) \<longleftrightarrow>
        (\<exists>e. fst (null_client (Select ''test_records'' ''*'') (db bare_world)) = Inl e))"
  by (simp add: get_test_records_def execute_def null_client_def bare_world_def)

text \<open>
  C9. On every database failure in \<^verbatim>\<open>GET /test\<close> or \<^verbatim>\<open>POST /test\<close> the handler
  raises an \<^verbatim>\<open>HTTPException\<close> with status code 500 whose detail is exactly the string
  \<^verbatim>\<open>"Database error: "\<close> followed by the string representation of the exception the
  client raised.
\<close>

theorem database_error_detail_exact:
  "(\<forall>e. fst (supabase (Select ''test_records'' ''*'') (db w)) = Inl e \<longrightarrow>
        fst (get_test_records supabase w) =
          Inl (HTTPException 500 (''Database error: '' @ str e))) \<and>
   (\<forall>e. fst (supabase (Insert ''test_records'' record) (db w)) = Inl e \<longrightarrow>
        fst (add_test_record supabase record w) =
          Inl (HTTPException 500 (''Database error: '' @ str e)))"
  by (simp add: get_test_records_fst add_test_record_fst)

theorem database_error_detail_exact_witness:
  "fst (supabase_model (Select ''test_records'' ''*'') (db (world_with [Some timeout])))
     = Inl timeout \<and>
   fst (get_test_records supabase_model (world_with [Some timeout]))
     = Inl (HTTPException 500 ''Database error: timed out'') \<and>
   fst (supabase_model (Insert ''test_records'' grace) (db (world_with [Some timeout])))
     = Inl timeout \<and>
   fst (add_test_record supabase_model grace (world_with [Some timeout]))
     = Inl (HTTPException 500 ''Database error: timed out'')"
  using database_error_detail_exact
          [of supabase_model "world_with [Some timeout]" grace]
  by (simp add: supabase_model_def world_with_def timeout_def)

section \<open>Inserting a test record\<close>

text \<open>
  C3. \<^verbatim>\<open>POST /test\<close> makes exactly one request to the database client: the insert of
  the request body, unmodified, into the collection \<^verbatim>\<open>test_records\<close>. The database is
  left as that insert leaves it, and when the insert succeeds the handler returns
  \<^verbatim>\<open>{"success": True, "data": rows}\<close> with the row list the insert reported.
\<close>

theorem add_test_record_passes_record_verbatim:
  "calls (snd (add_test_record supabase record w)) =
      calls w @ [Insert ''test_records'' record] \<and>
   db (snd (add_test_record supabase record w)) =
      snd (supabase (Insert ''test_records'' record) (db w)) \<and>
   (\<forall>response. fst (supabase (Insert ''test_records'' record) (db w)) = Inr response \<longrightarrow>
      fst (add_test_record supabase record w) =
        Inr (PyDict [(''success'', PyBool True), (''data'', data response)]))"
  by (simp add: add_test_record_fst add_test_record_snd)

theorem add_test_record_passes_record_verbatim_witness:
  "calls (snd (add_test_record supabase_model grace (world_with [None]))) =
      [Insert ''test_records'' grace] \<and>
   fst (supabase_model (Insert ''test_records'' grace) (db (world_with [None]))) =
      Inr (APIResponse (PyList [PyDict grace])) \<and>
   fst (add_test_record supabase_model grace (world_with [None])) =
      Inr (PyDict [(''success'', PyBool True), (''data'', PyList [PyDict grace])])"
  using add_test_record_passes_record_verbatim [of supabase_model grace "world_with [None]"]
  by (simp add: supabase_model_def run_query_def world_with_def)

subsection \<open>Insert, then read\<close>

lemma supabase_model_select:
  "fst (supabase_model (Select t cols) s) = Inr response \<Longrightarrow>
     data response = PyList (map PyDict (tables s t))"
  by (auto simp: supabase_model_def run_query_def split: list.splits option.splits)

lemma supabase_model_insert:
  "fst (supabase_model (Insert t record) s) = Inr response \<Longrightarrow>
     tables (snd (supabase_model (Insert t record) s)) t = tables s t @ [record]"
  by (auto simp: supabase_model_def run_query_def split: list.splits option.splits)

text \<open>
  C4. On the database modelled above: for every record and every database state, when
  \<^verbatim>\<open>POST /test\<close> with the record succeeds and a following \<^verbatim>\<open>GET /test\<close> succeeds, the
  data of that \<^verbatim>\<open>GET\<close> includes the inserted record, and its count is one more than
  the count of a successful \<^verbatim>\<open>GET /test\<close> on the tables as they were before the insert.
\<close>

theorem post_then_get_includes_record:
  assumes post: "fst (add_test_record supabase_model record w) = Inr posted"
    and get: "fst (get_test_records supabase_model
                     (snd (add_test_record supabase_model record w))) = Inr got"
    and before: "fst (get_test_records supabase_model w0) = Inr earlier"
    and same: "tables (db w0) = tables (db w)"
  shows "\<exists>rows n. getitem got ''data'' = Some (PyList rows) \<and> PyDict record \<in> set rows \<and>
           getitem earlier ''count'' = Some (PyInt n) \<and>
           getitem got ''count'' = Some (PyInt (n + 1))"
proof -
  let ?q = "Insert ''test_records'' record"
  let ?w1 = "snd (add_test_record supabase_model record w)"
  from post obtain r1 where r1: "fst (supabase_model ?q (db w)) = Inr r1"
    by (auto simp: add_test_record_fst split: sum.splits)
  have stored: "tables (db ?w1) ''test_records'' = tables (db w) ''test_records'' @ [record]"
    using supabase_model_insert [OF r1] by (simp add: add_test_record_snd)
  from get obtain r2 n2 where
    r2: "fst (supabase_model (Select ''test_records'' ''*'') (db ?w1)) = Inr r2" and
    n2: "len (data r2) = Inr n2" and
    got: "got = PyDict [(''success'', PyBool True), (''data'', data r2), (''count'', PyInt n2)]"
    by (auto simp: get_test_records_fst split: sum.splits)
  from before obtain r0 n0 where
    r0: "fst (supabase_model (Select ''test_records'' ''*'') (db w0)) = Inr r0" and
    n0: "len (data r0) = Inr n0" and
    earlier: "earlier = PyDict [(''success'', PyBool True), (''data'', data r0),
                                (''count'', PyInt n0)]"
    by (auto simp: get_test_records_fst split: sum.splits)
  have d2: "data r2 = PyList (map PyDict (tables (db w) ''test_records'' @ [record]))"
    using supabase_model_select [OF r2] stored by simp
  have d0: "data r0 = PyList (map PyDict (tables (db w) ''test_records''))"
    using supabase_model_select [OF r0] same by simp
  have c2: "n2 = int (length (tables (db w) ''test_records'')) + 1"
    using n2 by (simp add: d2)
  have c0: "n0 = int (length (tables (db w) ''test_records''))"
    using n0 by (simp add: d0)
  show ?thesis
    by (simp add: got earlier d2 c2 c0)
qed

theorem post_then_get_includes_record_witness:
  "fst (add_test_record supabase_model grace (world_with [None])) =
     Inr (PyDict [(''success'', PyBool True), (''data'', PyList [PyDict grace])]) \<and>
   fst (get_test_records supabase_model
          (snd (add_test_record supabase_model grace (world_with [None])))) =
     Inr (PyDict [(''success'', PyBool True),
                  (''data'', PyList [PyDict ada, PyDict grace]),
                  (''count'', PyInt 2)]) \<and>
   fst (get_test_records supabase_model (world_with [])) =
     Inr (PyDict [(''success'', PyBool True),
                  (''data'', PyList [PyDict ada]),
                  (''count'', PyInt 1)]) \<and>
   tables (db (world_with [])) = tables (db (world_with [None])) \<and>
   (\<exists>rows n. getitem (PyDict [(''success'', PyBool True),
                  (''data'', PyList [PyDict ada, PyDict grace]),
                  (''count'', PyInt 2)]) ''data'' = Some (PyList rows) \<and>
           PyDict grace \<in> set rows \<and>
           getitem (PyDict [(''success'', PyBool True),
                  (''data'', PyList [PyDict ada]),
                  (''count'', PyInt 1)]) ''count'' = Some (PyInt n) \<and>
           getitem (PyDict [(''success'', PyBool True),
                  (''data'', PyList [PyDict ada, PyDict grace]),
                  (''count'', PyInt 2)]) ''count'' = Some (PyInt (n + 1)))"
proof -
  have post: "fst (add_test_record supabase_model grace (world_with [None])) =
     Inr (PyDict [(''success'', PyBool True), (''data'', PyList [PyDict grace])])"
    by (simp add: add_test_record_def execute_def supabase_model_def run_query_def
        world_with_def)
  have get: "fst (get_test_records supabase_model
          (snd (add_test_record supabase_model grace (world_with [None])))) =
     Inr (PyDict [(''success'', PyBool True),
                  (''data'', PyList [PyDict ada, PyDict grace]),
                  (''count'', PyInt 2)])"
    by (simp add: add_test_record_def get_test_records_def execute_def supabase_model_def
        run_query_def world_with_def)
  have before: "fst (get_test_records supabase_model (world_with [])) =
     Inr (PyDict [(''success'', PyBool True),
                  (''data'', PyList [PyDict ada]),
                  (''count'', PyInt 1)])"
    by (simp add: get_test_records_def execute_def supabase_model_def run_query_def
        world_with_def)
  have same: "tables (db (world_with [])) = tables (db (world_with [None]))"
    by (simp add: world_with_def)
  from post_then_get_includes_record [OF post get before same] post get before same
  show ?thesis by simp
qed

section \<open>The root route\<close>

text \<open>
  C5. \<^verbatim>\<open>GET /\<close> returns exactly \<^verbatim>\<open>{"message": "Backend connected successfully!"}\<close>
  in every world, leaves the world as it is, and never raises.
\<close>

theorem root_fixed_message:
  "root w = (Inr (PyDict [(''message'', PyStr ''Backend connected successfully!'')]), w) \<and>
   router supabase GET_root w =
     (Inr (PyDict [(''message'', PyStr ''Backend connected successfully!'')]), w)"
  by (simp add: root_def)

section \<open>Cross-origin configuration\<close>






section \<open>Statelessness\<close>

text \<open>
  C7. Every handler is stateless: for every request, failing ones included, the
  application state outside the database is unchanged, and the handler does not read it
  either (running the request from a world with any other application state gives the
  same outcome and the same world, up to that application state).
\<close>

theorem handlers_leave_application_state:
  "app_state (snd (router supabase request w)) = app_state w \<and>
   router supabase request (w\<lparr>app_state := a\<rparr>) =
     (fst (router supabase request w), (snd (router supabase request w))\<lparr>app_state := a\<rparr>)"
  by (cases request)
     (simp_all add: root_def get_test_records_def add_test_record_def execute_def
        split: prod.splits sum.splits)

section \<open>The success flag\<close>

text \<open>
  C8. Every response body that \<^verbatim>\<open>GET /test\<close> or \<^verbatim>\<open>POST /test\<close> returns has the
  field \<^verbatim>\<open>success\<close> equal to the boolean \<^verbatim>\<open>True\<close>.
\<close>

theorem success_flag_is_true:
  "(\<forall>body. fst (get_test_records supabase w) = Inr body \<longrightarrow>
      getitem body ''success'' = Some (PyBool True)) \<and>
   (\<forall>body. fst (add_test_record supabase record w) = Inr body \<longrightarrow>
      getitem body ''success'' = Some (PyBool True))"
  by (auto simp: get_test_records_fst add_test_record_fst split: sum.splits)

theorem success_flag_is_true_witness:
  "fst (get_test_records supabase_model (world_with [])) =
     Inr (PyDict [(''success'', PyBool True),
                  (''data'', PyList [PyDict ada]),
                  (''count'', PyInt 1)]) \<and>
   getitem (PyDict [(''success'', PyBool True),
                  (''data'', PyList [PyDict ada]),
                  (''count'', PyInt 1)]) ''success'' = Some (PyBool True) \<and>
   fst (add_test_record supabase_model grace (world_with [])) =
     Inr (PyDict [(''success'', PyBool True), (''data'', PyList [PyDict grace])]) \<and>
   getitem (PyDict [(''success'', PyBool True), (''data'', PyList [PyDict grace])])
     ''success'' = Some (PyBool True)"
  using success_flag_is_true [of supabase_model "world_with []" grace]
  by (simp add: add_test_record_def get_test_records_def execute_def supabase_model_def
        run_query_def world_with_def)

section \<open>Determinism\<close>

text \<open>
  C10. The outcome of \<^verbatim>\<open>GET /test\<close> is determined by the outcome of the database
  client's select, and the outcome of \<^verbatim>\<open>POST /test\<close> by the request body and the
  outcome of the client's insert: two runs that agree on these, with whatever clients
  and worlds, return identical responses.
\<close>

theorem handlers_deterministic:
  "(fst (supabase1 (Select ''test_records'' ''*'') (db w1)) =
      fst (supabase2 (Select ''test_records'' ''*'') (db w2)) \<longrightarrow>
    fst (get_test_records supabase1 w1) = fst (get_test_records supabase2 w2)) \<and>
   (fst (supabase1 (Insert ''test_records'' record) (db w1)) =
      fst (supabase2 (Insert ''test_records'' record) (db w2)) \<longrightarrow>
    fst (add_test_record supabase1 record w1) = fst (add_test_record supabase2 record w2))"
  by (simp add: get_test_records_fst add_test_record_fst)

theorem handlers_deterministic_witness:
  "fst (supabase_model (Select ''test_records'' ''*'') (db (world_with [None]))) =
     fst (supabase_model (Select ''test_records'' ''*'') (db (world_with []))) \<and>
   fst (get_test_records supabase_model (world_with [None])) =
     fst (get_test_records supabase_model (world_with [])) \<and>
   fst (supabase_model (Insert ''test_records'' grace) (db (world_with [Some timeout]))) =
     fst (supabase_model (Insert ''test_records'' grace)
            (db (world_with [Some timeout, None]))) \<and>
   fst (add_test_record supabase_model grace (world_with [Some timeout])) =
     fst (add_test_record supabase_model grace (world_with [Some timeout, None]))"
proof -
  have sel: "fst (supabase_model (Select ''test_records'' ''*'') (db (world_with [None]))) =
     fst (supabase_model (Select ''test_records'' ''*'') (db (world_with [])))"
    by (simp add: supabase_model_def run_query_def world_with_def)
  have ins: "fst (supabase_model (Insert ''test_records'' grace)
                    (db (world_with [Some timeout]))) =
     fst (supabase_model (Insert ''test_records'' grace)
            (db (world_with [Some timeout, None])))"
    by (simp add: supabase_model_def world_with_def)
  from handlers_deterministic
         [of supabase_model "world_with [None]" supabase_model "world_with []" grace]
       handlers_deterministic
         [of supabase_model "world_with [Some timeout]"
             supabase_model "world_with [Some timeout, None]" grace]
       sel ins
  show ?thesis by blast
qed

end
